theory Spec2Isabelle
  imports Complex_Main
begin

section \<open>Data model of app.py\<close>

text \<open>
  The script app.py is a Streamlit page: it is executed top to bottom once per user
  interaction, reads the widgets, and mutates \<^verbatim>\<open>st.session_state\<close>. The model passes
  the session state explicitly, returns the effects of a run (widgets shown, calls to
  the external collaborators) as a list of events in program order, and returns how the
  run ended as a value.

  A Python \<^verbatim>\<open>str\<close> is a sequence of Unicode code points, modelled as a list of
  natural numbers; \<open>py_lit\<close> embeds an ASCII literal.
\<close>

type_synonym py_str = "nat list"

definition py_lit :: "string \<Rightarrow> py_str" where
  "py_lit s = map of_char s"

text \<open>
  \<^verbatim>\<open>str.isspace\<close> for one code point: the ASCII white space of CPython
  (TAB, LF, VT, FF, CR, FS, GS, RS, US, SPACE) and the Unicode white space
  (U+0085, U+00A0, U+1680, U+2000..U+200A, U+2028, U+2029, U+202F, U+205F, U+3000).
\<close>

definition isspace :: "nat \<Rightarrow> bool" where
  "isspace c =
     ((9 \<le> c \<and> c \<le> 13) \<or> (28 \<le> c \<and> c \<le> 32) \<or> c = 133 \<or> c = 160 \<or> c = 5760
      \<or> (8192 \<le> c \<and> c \<le> 8202) \<or> c = 8232 \<or> c = 8233 \<or> c = 8239 \<or> c = 8287
      \<or> c = 12288)"

text \<open>\<^verbatim>\<open>str.strip()\<close>: leading and trailing white space removed.\<close>

definition strip :: "py_str \<Rightarrow> py_str" where
  "strip s = rev (dropWhile isspace (rev (dropWhile isspace s)))"

text \<open>An exception raised by a library call, with the text \<^verbatim>\<open>str(e)\<close>.\<close>

datatype py_exception = Exception (str_e: py_str)

text \<open>
  A PIL image: its \<^verbatim>\<open>mode\<close> (\<^verbatim>\<open>'RGB'\<close>, \<^verbatim>\<open>'RGBA'\<close>, \<^verbatim>\<open>'L'\<close>, \<^verbatim>\<open>'P'\<close>, ...), its
  \<^verbatim>\<open>size\<close> (width, height) and its pixel data.
\<close>

record image =
  mode :: string
  size_px :: "nat \<times> nat"
  pixels :: "nat list"

text \<open>The file handed over by \<^verbatim>\<open>st.file_uploader\<close>: its \<^verbatim>\<open>size\<close> in bytes and its bytes.\<close>

record uploaded_file =
  file_size :: nat
  file_bytes :: "nat list"

record generation_config =
  cfg_temperature :: real
  cfg_top_k :: int
  cfg_max_output_tokens :: int

text \<open>
  The value returned by \<^verbatim>\<open>model.generate_content\<close>. Its property \<^verbatim>\<open>text\<close> either
  yields a string or raises (the client library raises when the reply has no text part).
\<close>

datatype response = Response (response_text: "py_exception + py_str")

text \<open>One dictionary appended to \<^verbatim>\<open>conversation_history\<close> (lines 184 to 189).\<close>

record entry =
  question :: py_str
  answer :: py_str
  response_time :: real
  timestamp :: string

text \<open>\<^verbatim>\<open>st.session_state\<close> after its initialisation in lines 38 to 43.\<close>

record session_state =
  conversation_history :: "entry list"
  current_image :: "image option"
  current_image_base64 :: "py_str option"

definition init_session_state :: session_state where
  "init_session_state =
     \<lparr>conversation_history = [], current_image = None, current_image_base64 = None\<rparr>"

text \<open>
  The external collaborators, taken as parameters: \<^verbatim>\<open>Image.open\<close>,
  \<^verbatim>\<open>image.convert\<close>, \<^verbatim>\<open>image.save(buffered, format="JPEG")\<close> followed by
  \<^verbatim>\<open>buffered.getvalue()\<close>, \<^verbatim>\<open>base64.b64encode(...).decode()\<close>, and
  \<^verbatim>\<open>model.generate_content\<close>. Each of the first three and the last may raise.
\<close>

record collaborators =
  Image_open :: "uploaded_file \<Rightarrow> py_exception + image"
  convert :: "image \<Rightarrow> string \<Rightarrow> py_exception + image"
  save_jpeg :: "image \<Rightarrow> py_exception + nat list"
  b64encode :: "nat list \<Rightarrow> py_str"
  generate_content :: "py_str \<Rightarrow> image \<Rightarrow> generation_config \<Rightarrow> py_exception + response"

text \<open>
  What a run does beyond changing the session state, in program order: the calls to the
  decoder and to the remote model, and the widgets that carry a message. Layout widgets
  (columns, spinner, headers of the page) are left out.
\<close>

datatype event =
    Call_Image_open uploaded_file
  | Call_convert image string
  | Call_generate_content py_str image generation_config
  | Error_file_too_large
  | Error_processing_image py_exception
  | Show_image image
  | Info_image nat nat nat
  | Warning_no_image
  | Success_response
  | Markdown_response py_str
  | Caption_response_time real
  | Error_no_response
  | Error_generating_response py_exception
  | Caption_hint
  | Subheader_history
  | Expander string entry
  | Info_upload_first
  | Info_ask_first

text \<open>
  How a piece of the script ends: it falls through to the next statement, or
  \<^verbatim>\<open>st.stop()\<close> ends the run, or \<^verbatim>\<open>st.rerun()\<close> ends it and schedules a new one, or an
  exception escapes to the framework. Streamlit's stop and rerun exceptions derive from
  \<^verbatim>\<open>BaseException\<close>, so an \<^verbatim>\<open>except Exception\<close> clause does not catch them.
\<close>

datatype control = Continue | Stop | Rerun | Uncaught py_exception

fun is_decode :: "event \<Rightarrow> bool" where
  "is_decode (Call_Image_open f) = True"
| "is_decode (Call_convert i m) = True"
| "is_decode ev = False"

fun is_remote_call :: "event \<Rightarrow> bool" where
  "is_remote_call (Call_generate_content p i c) = True"
| "is_remote_call ev = False"

section \<open>Image ingestion\<close>

text \<open>
  \<^verbatim>\<open>process_uploaded_image\<close> (lines 53 to 70). The size test is the first statement
  inside the \<^verbatim>\<open>try\<close>; every exception of \<^verbatim>\<open>Image.open\<close> and of \<^verbatim>\<open>convert\<close> is caught,
  reported and turned into \<^verbatim>\<open>None\<close>.
\<close>

definition process_uploaded_image ::
  "collaborators \<Rightarrow> uploaded_file \<Rightarrow> image option \<times> event list" where
  "process_uploaded_image ext uploaded =
     (if file_size uploaded > 10 * 1024 * 1024 then (None, [Error_file_too_large])
      else
        (case Image_open ext uploaded of
           Inl e \<Rightarrow> (None, [Call_Image_open uploaded, Error_processing_image e])
         | Inr img \<Rightarrow>
             if mode img \<noteq> ''RGB'' then
               (case convert ext img ''RGB'' of
                  Inl e \<Rightarrow>
                    (None, [Call_Image_open uploaded, Call_convert img ''RGB'',
                            Error_processing_image e])
                | Inr img' \<Rightarrow> (Some img', [Call_Image_open uploaded, Call_convert img ''RGB'']))
             else (Some img, [Call_Image_open uploaded])))"

text \<open>\<^verbatim>\<open>image_to_base64\<close> (lines 46 to 50); nothing catches what \<^verbatim>\<open>save\<close> raises.\<close>

definition image_to_base64 :: "collaborators \<Rightarrow> image \<Rightarrow> py_exception + py_str" where
  "image_to_base64 ext img =
     (case save_jpeg ext img of
        Inl e \<Rightarrow> Inl e
      | Inr buffered \<Rightarrow> Inr (b64encode ext buffered))"

text \<open>
  The upload block (lines 119 to 135). The image is stored before its base64 text is
  computed; when ingestion returned \<^verbatim>\<open>None\<close> the \<^verbatim>\<open>else\<close> branch resets both keys.
\<close>

definition upload_handler ::
  "collaborators \<Rightarrow> uploaded_file option \<Rightarrow> session_state
     \<Rightarrow> control \<times> session_state \<times> event list" where
  "upload_handler ext uploaded_opt s =
     (case uploaded_opt of
        None \<Rightarrow> (Continue, s, [])
      | Some uploaded \<Rightarrow>
          (case process_uploaded_image ext uploaded of
             (Some img, evs) \<Rightarrow>
               (let s1 = s\<lparr>current_image := Some img\<rparr> in
                case image_to_base64 ext img of
                  Inl e \<Rightarrow> (Uncaught e, s1, evs)
                | Inr b64 \<Rightarrow>
                    (Continue, s1\<lparr>current_image_base64 := Some b64\<rparr>,
                     evs @ [Show_image img,
                            Info_image (fst (size_px img)) (snd (size_px img))
                              (file_size uploaded)]))
           | (None, evs) \<Rightarrow>
               (Continue, s\<lparr>current_image := None, current_image_base64 := None\<rparr>, evs)))"

section \<open>Session state operations\<close>

text \<open>
  The body of the Clear Conversation button (lines 101 to 104): three assignments, then
  \<^verbatim>\<open>st.rerun()\<close>.
\<close>

definition clear :: "session_state \<Rightarrow> session_state" where
  "clear s =
     s\<lparr>conversation_history := [], current_image := None, current_image_base64 := None\<rparr>"

definition clear_handler :: "bool \<Rightarrow> session_state \<Rightarrow> control \<times> session_state \<times> event list" where
  "clear_handler clear_button s =
     (if clear_button then (Rerun, clear s, []) else (Continue, s, []))"

text \<open>\<^verbatim>\<open>st.session_state.conversation_history.append(...)\<close> (line 184).\<close>

definition appendEntry :: "entry \<Rightarrow> session_state \<Rightarrow> session_state" where
  "appendEntry e s = s\<lparr>conversation_history := conversation_history s @ [e]\<rparr>"

section \<open>Asking a question\<close>

text \<open>The widget values read by one run of the script.\<close>

record widgets =
  temperature :: real
  top_k :: int
  clear_button :: bool
  uploaded :: "uploaded_file option"
  user_question :: py_str
  ask_button :: bool

text \<open>
  The values the clock returns during one run: \<^verbatim>\<open>time.time()\<close> at line 152 and at
  line 176, and \<^verbatim>\<open>time.strftime("%H:%M:%S")\<close> at line 188. \<^verbatim>\<open>time.time()\<close> is the
  system's wall clock, a Python float; the model reads it as a real number and nothing
  relates the two readings.
\<close>

record clock =
  start_time :: real
  end_time :: real
  strftime_now :: string

text \<open>The triple-quoted literal of lines 94 to 96, with its line breaks and indentation.\<close>

definition system_prompt :: py_str where
  "system_prompt = py_lit
     (''You are a helpful AI assistant that can analyze images and answer questions about them. ''
      @ [CHR 0x0A]
      @ ''        Be descriptive, accurate, and helpful in your responses. If you can''
      @ [CHR 0x27]
      @ ''t see something clearly in the image, ''
      @ [CHR 0x0A]
      @ ''        please say so rather than guessing.'')"

definition full_prompt :: "py_str \<Rightarrow> py_str" where
  "full_prompt q =
     system_prompt @ py_lit ([CHR 0x0A, CHR 0x0A] @ ''User Question: '') @ strip q"

text \<open>
  The Ask block (lines 150 to 204). \<^verbatim>\<open>ask_button\<close> is what \<^verbatim>\<open>st.button\<close> returned.
  \<^verbatim>\<open>st.stop()\<close> at line 158 is not caught by the \<^verbatim>\<open>except Exception\<close> of line 202;
  what \<^verbatim>\<open>generate_content\<close> or the \<^verbatim>\<open>text\<close> property raise is. The end time is read
  after \<^verbatim>\<open>generate_content\<close> returned and before \<^verbatim>\<open>response.text\<close> is looked at.
\<close>

definition ask_handler ::
  "collaborators \<Rightarrow> widgets \<Rightarrow> clock \<Rightarrow> session_state
     \<Rightarrow> control \<times> session_state \<times> event list" where
  "ask_handler ext w ck s =
     (if ask_button w \<and> strip (user_question w) \<noteq> [] then
        (case current_image s of
           None \<Rightarrow> (Stop, s, [Warning_no_image])
         | Some img \<Rightarrow>
             (let cfg = \<lparr>cfg_temperature = temperature w, cfg_top_k = top_k w,
                         cfg_max_output_tokens = 1024\<rparr>;
                  prompt = full_prompt (user_question w);
                  call = Call_generate_content prompt img cfg
              in (case generate_content ext prompt img cfg of
                    Inl e \<Rightarrow> (Continue, s, [call, Error_generating_response e, Caption_hint])
                  | Inr resp \<Rightarrow>
                      (let rt = end_time ck - start_time ck
                       in (case response_text resp of
                             Inl e \<Rightarrow>
                               (Continue, s, [call, Error_generating_response e, Caption_hint])
                           | Inr ai_response \<Rightarrow>
                               (if ai_response \<noteq> [] then
                                  (Continue,
                                   appendEntry
                                     \<lparr>question = strip (user_question w),
                                      answer = ai_response,
                                      response_time = rt,
                                      timestamp = strftime_now ck\<rparr> s,
                                   [call, Success_response, Markdown_response ai_response,
                                    Caption_response_time rt])
                                else (Continue, s, [call, Error_no_response])))))))
      else (Continue, s, []))"

section \<open>Conversation history\<close>

text \<open>\<^verbatim>\<open>str\<close> of an integer, in decimal.\<close>

fun str_nat :: "nat \<Rightarrow> string" where
  "str_nat n =
     (if n < 10 then [''0123456789'' ! n]
      else str_nat (n div 10) @ [''0123456789'' ! (n mod 10)])"

declare str_nat.simps [simp del]

definition str_int :: "int \<Rightarrow> string" where
  "str_int i = (if i < 0 then ''-'' @ str_nat (nat (- i)) else str_nat (nat i))"

text \<open>The label of line 211: \<^verbatim>\<open>f"Q&A #{len(history) - i} - {entry['timestamp']}"\<close>.\<close>

definition expander_label :: "int \<Rightarrow> entry \<Rightarrow> string" where
  "expander_label n e = ''Q&A #'' @ str_int n @ '' - '' @ timestamp e"

text \<open>
  The history block (lines 207 to 214): nothing when the history is empty, otherwise one
  expander per entry of \<^verbatim>\<open>enumerate(reversed(history))\<close>, holding the entry's question,
  answer and response time.
\<close>

definition render_history :: "entry list \<Rightarrow> event list" where
  "render_history history =
     (if history \<noteq> [] then
        Subheader_history #
        map (\<lambda>(i, e). Expander (expander_label (int (length history) - int i) e) e)
          (enumerate 0 (rev history))
      else [])"

text \<open>The expanders shown, in display order, as pairs of label and entry.\<close>

fun expanders :: "event list \<Rightarrow> (string \<times> entry) list" where
  "expanders [] = []"
| "expanders (Expander l e # evs) = (l, e) # expanders evs"
| "expanders (ev # evs) = expanders evs"

text \<open>The closing hints (lines 221 to 224).\<close>

definition instructions :: "session_state \<Rightarrow> event list" where
  "instructions s =
     (if current_image s = None then [Info_upload_first]
      else if conversation_history s = [] then [Info_ask_first]
      else [])"

section \<open>One run of the script\<close>

text \<open>
  Sequencing of two pieces of the script: the second runs only when the first fell
  through.
\<close>

definition and_then ::
  "control \<times> session_state \<times> event list
     \<Rightarrow> (session_state \<Rightarrow> control \<times> session_state \<times> event list)
     \<Rightarrow> control \<times> session_state \<times> event list" where
  "and_then r f =
     (case r of
        (Continue, s, evs) \<Rightarrow> (case f s of (c', s', evs') \<Rightarrow> (c', s', evs @ evs'))
      | (c, s, evs) \<Rightarrow> (c, s, evs))"

text \<open>
  Lines 100 to 224 in order: the clear button, the upload block, the Ask block, the
  history and the closing hints. The model configuration of lines 20 to 35 comes before
  and touches no session state.
\<close>

definition script_run ::
  "collaborators \<Rightarrow> widgets \<Rightarrow> clock \<Rightarrow> session_state
     \<Rightarrow> control \<times> session_state \<times> event list" where
  "script_run ext w ck s =
     and_then
       (and_then
          (and_then (clear_handler (clear_button w) s) (upload_handler ext (uploaded w)))
          (ask_handler ext w ck))
       (\<lambda>s'. (Continue, s', render_history (conversation_history s') @ instructions s'))"

text \<open>The session states a session can be in: the initial one, and any state a run leaves.\<close>

inductive reachable :: "session_state \<Rightarrow> bool" where
  reachable_init: "reachable init_session_state"
| reachable_run: "reachable s \<Longrightarrow> script_run ext w ck s = (c, s', evs) \<Longrightarrow> reachable s'"

text \<open>
  An entry is well formed when its question is not empty after trimming and its answer
  is not empty.
\<close>

definition entry_ok :: "entry \<Rightarrow> bool" where
  "entry_ok e = (strip (question e) \<noteq> [] \<and> answer e \<noteq> [])"

definition history_ok :: "session_state \<Rightarrow> bool" where
  "history_ok s = list_all entry_ok (conversation_history s)"

text \<open>
  The replies of the remote model that the script does not turn into a history entry:
  the call raised, the \<^verbatim>\<open>text\<close> property raised, or the text is the empty string.
\<close>

fun remote_failed :: "py_exception + response \<Rightarrow> bool" where
  "remote_failed (Inl e) = True"
| "remote_failed (Inr (Response (Inl e))) = True"
| "remote_failed (Inr (Response (Inr txt))) = (txt = [])"

section \<open>Concrete inputs\<close>

text \<open>
  Stand-ins for the collaborators, used to run the model on concrete inputs: a decoder
  that rejects an empty file, reads a file starting with the byte 0xFF as a 2 by 2 red
  RGB image and any other file as a 2 by 2 greyscale image; a conversion that only
  relabels the mode; and a remote model that always gives the same reply.
\<close>

definition red_image :: image where
  "red_image = \<lparr>mode = ''RGB'', size_px = (2, 2), pixels = [255, 0, 0, 255, 0, 0, 255, 0, 0, 255, 0, 0]\<rparr>"

definition grey_image :: image where
  "grey_image = \<lparr>mode = ''L'', size_px = (2, 2), pixels = [76, 76, 76, 76]\<rparr>"

definition stub :: "py_exception + response \<Rightarrow> collaborators" where
  "stub reply =
     \<lparr>Image_open = (\<lambda>f. if file_bytes f = [] then Inl (Exception (py_lit ''cannot identify image file''))
                         else if hd (file_bytes f) = 255 then Inr red_image
                         else Inr grey_image),
      convert = (\<lambda>img m. Inr (img\<lparr>mode := m\<rparr>)),
      save_jpeg = (\<lambda>img. Inr (pixels img)),
      b64encode = (\<lambda>bs. bs),
      generate_content = (\<lambda>prompt img cfg. reply)\<rparr>"

definition stub_ok :: collaborators where
  "stub_ok = stub (Inr (Response (Inr (py_lit ''The image is red.''))))"

definition stub_quota :: collaborators where
  "stub_quota = stub (Inl (Exception (py_lit ''429 quota exceeded'')))"

definition small_file :: uploaded_file where
  "small_file = \<lparr>file_size = 4, file_bytes = [255, 216, 255, 224]\<rparr>"


definition ten_mib_file :: uploaded_file where
  "ten_mib_file = \<lparr>file_size = 10485760, file_bytes = replicate 10485760 0\<rparr>"

definition big_file :: uploaded_file where
  "big_file = \<lparr>file_size = 10485761, file_bytes = replicate 10485761 0\<rparr>"

definition state_with_image :: session_state where
  "state_with_image =
     \<lparr>conversation_history = [], current_image = Some red_image,
      current_image_base64 = Some (pixels red_image)\<rparr>"

definition ask_widgets :: widgets where
  "ask_widgets =
     \<lparr>temperature = 7 / 10, top_k = 20, clear_button = False, uploaded = Some small_file,
      user_question = py_lit ''  What color? '', ask_button = True\<rparr>"

definition blank_widgets :: widgets where
  "blank_widgets = ask_widgets\<lparr>user_question := py_lit ''   ''\<rparr>"

definition steady_clock :: clock where
  "steady_clock = \<lparr>start_time = 100, end_time = 102, strftime_now = ''12:00:00''\<rparr>"

definition stepped_back_clock :: clock where
  "stepped_back_clock = \<lparr>start_time = 5, end_time = 3, strftime_now = ''12:00:00''\<rparr>"

section \<open>Image ingestion and the session state\<close>

text \<open>When ingestion returns \<^verbatim>\<open>None\<close>: the three ways \<^verbatim>\<open>process_uploaded_image\<close> fails.\<close>

lemma process_uploaded_image_None_iff:
  "fst (process_uploaded_image ext f) = None \<longleftrightarrow>
     (file_size f > 10 * 1024 * 1024
      \<or> (\<exists>e. Image_open ext f = Inl e)
      \<or> (\<exists>img e. Image_open ext f = Inr img \<and> mode img \<noteq> ''RGB''
            \<and> convert ext img ''RGB'' = Inl e))"
  by (auto simp: process_uploaded_image_def split: sum.splits)

text \<open>
  Claim C1, as the code has it: when ingestion of an upload fails (the size test, the
  decoder or the conversion), the upload block falls through with the conversation
  history as it was, and with \<^verbatim>\<open>current_image\<close> and \<^verbatim>\<open>current_image_base64\<close> reset
  to \<^verbatim>\<open>None\<close> by the \<^verbatim>\<open>else\<close> branch of lines 133 to 135.
\<close>

theorem failed_ingest_resets_image:
  assumes "fst (process_uploaded_image ext f) = None"
  shows "upload_handler ext (Some f) s =
           (Continue, s\<lparr>current_image := None, current_image_base64 := None\<rparr>,
            snd (process_uploaded_image ext f))
         \<and> conversation_history (fst (snd (upload_handler ext (Some f) s)))
             = conversation_history s
         \<and> current_image (fst (snd (upload_handler ext (Some f) s))) = None"
proof -
  obtain evs where "process_uploaded_image ext f = (None, evs)"
    using assms by (cases "process_uploaded_image ext f") simp
  then show ?thesis by (simp add: upload_handler_def)
qed

theorem failed_ingest_resets_image_witness:
  "fst (process_uploaded_image stub_ok big_file) = None
   \<and> upload_handler stub_ok (Some big_file) state_with_image =
       (Continue, init_session_state, [Error_file_too_large])"
proof -
  have h: "fst (process_uploaded_image stub_ok big_file) = None"
    by (simp add: process_uploaded_image_def big_file_def)
  show ?thesis
    using h failed_ingest_resets_image [OF h, of state_with_image]
    by (simp add: process_uploaded_image_def big_file_def state_with_image_def
        init_session_state_def)
qed

text \<open>
  Claim C1 as stated (the current image after a failed ingestion equals the one before)
  fails: a session that holds an image loses it when an oversized file is uploaded.
\<close>

theorem failed_ingest_keeps_image_counterexample:
  "fst (process_uploaded_image stub_ok big_file) = None
   \<and> current_image (fst (snd (upload_handler stub_ok (Some big_file) state_with_image)))
       \<noteq> current_image state_with_image"
  by (simp add: upload_handler_def process_uploaded_image_def big_file_def
      state_with_image_def)

text \<open>
  Claim C2, as the code has it: an upload whose size is strictly above 10 MiB
  (10 * 1024 * 1024 bytes) is rejected with the size message, and neither
  \<^verbatim>\<open>Image.open\<close> nor \<^verbatim>\<open>convert\<close> is called: the size test comes before decoding.
\<close>

theorem size_exceeded_before_decode:
  assumes "file_size f > 10 * 1024 * 1024"
  shows "process_uploaded_image ext f = (None, [Error_file_too_large])
         \<and> filter is_decode (snd (process_uploaded_image ext f)) = []"
  using assms by (simp add: process_uploaded_image_def)

theorem size_exceeded_before_decode_witness:
  "file_size big_file > 10 * 1024 * 1024
   \<and> process_uploaded_image stub_ok big_file = (None, [Error_file_too_large])
   \<and> filter is_decode (snd (process_uploaded_image stub_ok big_file)) = []"
proof -
  have h: "file_size big_file > 10 * 1024 * 1024" by (simp add: big_file_def)
  show ?thesis using h size_exceeded_before_decode [OF h, of stub_ok] by simp
qed

text \<open>
  Claim C2 as stated (at or above 10 MiB) fails at the boundary: a file of exactly
  10 * 1024 * 1024 bytes passes the test of line 56, is decoded and is accepted.
\<close>

theorem ten_mib_rejected_counterexample:
  "file_size ten_mib_file = 10 * 1024 * 1024
   \<and> process_uploaded_image stub_ok ten_mib_file =
       (Some (grey_image\<lparr>mode := ''RGB''\<rparr>),
        [Call_Image_open ten_mib_file, Call_convert grey_image ''RGB''])
   \<and> filter is_decode (snd (process_uploaded_image stub_ok ten_mib_file)) \<noteq> []"
  by (simp add: process_uploaded_image_def ten_mib_file_def stub_ok_def stub_def
      grey_image_def)

text \<open>
  Claim C8: the Clear Conversation handler empties the history and sets the current
  image to \<^verbatim>\<open>None\<close> whatever the state was, ends in a rerun and never in an error,
  and clearing twice is clearing once; an append followed by a clear leaves the
  history empty and the image absent.
\<close>

theorem clear_resets_session:
  "conversation_history (clear s) = [] \<and> current_image (clear s) = None
   \<and> clear (clear s) = clear s
   \<and> conversation_history (clear (appendEntry e s)) = []
   \<and> current_image (clear (appendEntry e s)) = None
   \<and> clear_handler True s = (Rerun, clear s, [])"
  by (simp add: clear_def appendEntry_def clear_handler_def)

section \<open>The guards of the Ask block\<close>

text \<open>
  Claim C4: when the Ask button fired with a question that is not empty after
  trimming and the session holds no image, the block shows the no-image warning and
  stops the run: \<^verbatim>\<open>generate_content\<close> is not called and the history keeps its length
  (the whole state is unchanged).
\<close>

theorem no_image_stops_before_remote_call:
  assumes "ask_button w" and "strip (user_question w) \<noteq> []" and "current_image s = None"
  shows "ask_handler ext w ck s = (Stop, s, [Warning_no_image])
         \<and> filter is_remote_call (snd (snd (ask_handler ext w ck s))) = []
         \<and> length (conversation_history (fst (snd (ask_handler ext w ck s))))
             = length (conversation_history s)"
  using assms by (simp add: ask_handler_def)

theorem no_image_stops_before_remote_call_witness:
  "ask_button ask_widgets \<and> strip (user_question ask_widgets) \<noteq> []
   \<and> current_image init_session_state = None
   \<and> ask_handler stub_ok ask_widgets steady_clock init_session_state
       = (Stop, init_session_state, [Warning_no_image])"
proof -
  have h1: "ask_button ask_widgets" by (simp add: ask_widgets_def)
  have h2: "strip (user_question ask_widgets) \<noteq> []"
    by (simp add: ask_widgets_def strip_def py_lit_def isspace_def)
  have h3: "current_image init_session_state = None" by (simp add: init_session_state_def)
  show ?thesis
    using h1 h2 h3 no_image_stops_before_remote_call [OF h1 h2 h3, of stub_ok steady_clock]
    by simp
qed

text \<open>
  Claim C5: a question that is empty or only white space is rejected by the guard of
  line 150 whatever the button, the image, the parameters and the collaborators are:
  the block does nothing, so \<^verbatim>\<open>generate_content\<close> is not called and no entry is
  appended.
\<close>

theorem empty_question_rejected:
  assumes "strip (user_question w) = []"
  shows "ask_handler ext w ck s = (Continue, s, [])
         \<and> filter is_remote_call (snd (snd (ask_handler ext w ck s))) = []
         \<and> conversation_history (fst (snd (ask_handler ext w ck s))) = conversation_history s"
  using assms by (simp add: ask_handler_def)

theorem empty_question_rejected_witness:
  "strip (user_question blank_widgets) = [] \<and> ask_button blank_widgets
   \<and> ask_handler stub_ok blank_widgets steady_clock state_with_image
       = (Continue, state_with_image, [])"
proof -
  have h: "strip (user_question blank_widgets) = []"
    by (simp add: blank_widgets_def strip_def py_lit_def isspace_def)
  have b: "ask_button blank_widgets" by (simp add: blank_widgets_def ask_widgets_def)
  show ?thesis
    using h b empty_question_rejected [OF h, of stub_ok steady_clock state_with_image]
    by simp
qed



section \<open>The remote call\<close>

text \<open>
  Claim C3, as the code has it: when the Ask block succeeds, the entry it appends
  carries \<^verbatim>\<open>end_time - start_time\<close>, the difference of the wall clock read at line 152
  and read again at line 176 after \<^verbatim>\<open>generate_content\<close> returned; that value is not
  negative whenever the second reading is not below the first.
\<close>

theorem response_time_is_clock_difference:
  assumes "ask_handler ext w ck s = (c, s', evs)" and "Success_response \<in> set evs"
  shows "\<exists>e. s' = appendEntry e s
             \<and> response_time e = end_time ck - start_time ck
             \<and> (start_time ck \<le> end_time ck \<longrightarrow> 0 \<le> response_time e)"
  using assms
  by (auto simp: ask_handler_def Let_def split: if_splits option.splits sum.splits)

theorem response_time_is_clock_difference_witness:
  "ask_handler stub_ok ask_widgets steady_clock state_with_image =
     (Continue,
      appendEntry \<lparr>question = py_lit ''What color?'', answer = py_lit ''The image is red.'',
                   response_time = 2, timestamp = ''12:00:00''\<rparr> state_with_image,
      [Call_generate_content (full_prompt (py_lit ''  What color? '')) red_image
         \<lparr>cfg_temperature = 7 / 10, cfg_top_k = 20, cfg_max_output_tokens = 1024\<rparr>,
       Success_response, Markdown_response (py_lit ''The image is red.''),
       Caption_response_time 2])
   \<and> (\<exists>e. appendEntry \<lparr>question = py_lit ''What color?'', answer = py_lit ''The image is red.'',
                   response_time = 2, timestamp = ''12:00:00''\<rparr> state_with_image = appendEntry e state_with_image
          \<and> response_time e = end_time steady_clock - start_time steady_clock
          \<and> (start_time steady_clock \<le> end_time steady_clock \<longrightarrow> 0 \<le> response_time e))"
proof -
  have run: "ask_handler stub_ok ask_widgets steady_clock state_with_image =
     (Continue,
      appendEntry \<lparr>question = py_lit ''What color?'', answer = py_lit ''The image is red.'',
                   response_time = 2, timestamp = ''12:00:00''\<rparr> state_with_image,
      [Call_generate_content (full_prompt (py_lit ''  What color? '')) red_image
         \<lparr>cfg_temperature = 7 / 10, cfg_top_k = 20, cfg_max_output_tokens = 1024\<rparr>,
       Success_response, Markdown_response (py_lit ''The image is red.''),
       Caption_response_time 2])"
    by (simp add: ask_handler_def ask_widgets_def steady_clock_def state_with_image_def
        stub_ok_def stub_def strip_def py_lit_def isspace_def)
  have ok: "Success_response \<in> set
      [Call_generate_content (full_prompt (py_lit ''  What color? '')) red_image
         \<lparr>cfg_temperature = 7 / 10, cfg_top_k = 20, cfg_max_output_tokens = 1024\<rparr>,
       Success_response, Markdown_response (py_lit ''The image is red.''),
       Caption_response_time 2]"
    by simp
  show ?thesis
    using run response_time_is_clock_difference [OF run ok] by simp
qed

text \<open>
  Claim C3 as stated (the response time is never negative) fails: \<^verbatim>\<open>time.time()\<close> is
  the system's wall clock, not a monotonic one, and when it is set back between the two
  readings a successful request is recorded with a negative response time.
\<close>

theorem response_time_negative_counterexample:
  "ask_handler stub_ok ask_widgets stepped_back_clock state_with_image =
     (Continue,
      appendEntry \<lparr>question = py_lit ''What color?'', answer = py_lit ''The image is red.'',
                   response_time = - 2, timestamp = ''12:00:00''\<rparr> state_with_image,
      [Call_generate_content (full_prompt (py_lit ''  What color? '')) red_image
         \<lparr>cfg_temperature = 7 / 10, cfg_top_k = 20, cfg_max_output_tokens = 1024\<rparr>,
       Success_response, Markdown_response (py_lit ''The image is red.''),
       Caption_response_time (- 2)])
   \<and> \<not> 0 \<le> response_time (last (conversation_history
          (fst (snd (ask_handler stub_ok ask_widgets stepped_back_clock state_with_image)))))"
    by (simp add: ask_handler_def ask_widgets_def stepped_back_clock_def state_with_image_def
        stub_ok_def stub_def strip_def py_lit_def isspace_def appendEntry_def)

text \<open>
  Claim C6: when the Ask block reaches the remote model and the call raises, or the
  \<^verbatim>\<open>text\<close> property raises, or the text is empty, the block falls through with the
  session state exactly as it was, no entry is appended, no success is shown, and
  \<^verbatim>\<open>generate_content\<close> was called exactly once.
\<close>

theorem remote_failure_leaves_state:
  assumes "ask_button w" and "strip (user_question w) \<noteq> []"
    and "current_image s = Some img"
    and "remote_failed (generate_content ext (full_prompt (user_question w)) img
           \<lparr>cfg_temperature = temperature w, cfg_top_k = top_k w,
            cfg_max_output_tokens = 1024\<rparr>)"
  shows "fst (ask_handler ext w ck s) = Continue
         \<and> fst (snd (ask_handler ext w ck s)) = s
         \<and> length (filter is_remote_call (snd (snd (ask_handler ext w ck s)))) = 1
         \<and> Success_response \<notin> set (snd (snd (ask_handler ext w ck s)))"
proof (cases "generate_content ext (full_prompt (user_question w)) img
           \<lparr>cfg_temperature = temperature w, cfg_top_k = top_k w,
            cfg_max_output_tokens = 1024\<rparr>")
  case (Inl e)
  with assms show ?thesis by (simp add: ask_handler_def)
next
  case (Inr resp)
  show ?thesis
  proof (cases resp)
    case (Response t)
    with Inr assms show ?thesis
      by (cases t) (simp_all add: ask_handler_def)
  qed
qed

theorem remote_failure_leaves_state_witness:
  "ask_button ask_widgets \<and> strip (user_question ask_widgets) \<noteq> []
   \<and> current_image state_with_image = Some red_image
   \<and> ask_handler stub_quota ask_widgets steady_clock state_with_image =
       (Continue, state_with_image,
        [Call_generate_content (full_prompt (user_question ask_widgets)) red_image
           \<lparr>cfg_temperature = 7 / 10, cfg_top_k = 20, cfg_max_output_tokens = 1024\<rparr>,
         Error_generating_response (Exception (py_lit ''429 quota exceeded'')),
         Caption_hint])
   \<and> fst (snd (ask_handler stub_quota ask_widgets steady_clock state_with_image)) = state_with_image
   \<and> length (filter is_remote_call
        (snd (snd (ask_handler stub_quota ask_widgets steady_clock state_with_image)))) = 1"
proof -
  have h1: "ask_button ask_widgets" by (simp add: ask_widgets_def)
  have h2: "strip (user_question ask_widgets) \<noteq> []"
    by (simp add: ask_widgets_def strip_def py_lit_def isspace_def)
  have h3: "current_image state_with_image = Some red_image"
    by (simp add: state_with_image_def)
  have h4: "remote_failed (generate_content stub_quota (full_prompt (user_question ask_widgets))
           red_image
           \<lparr>cfg_temperature = temperature ask_widgets, cfg_top_k = top_k ask_widgets,
            cfg_max_output_tokens = 1024\<rparr>)"
    by (simp add: stub_quota_def stub_def)
  have run: "ask_handler stub_quota ask_widgets steady_clock state_with_image =
       (Continue, state_with_image,
        [Call_generate_content (full_prompt (user_question ask_widgets)) red_image
           \<lparr>cfg_temperature = 7 / 10, cfg_top_k = 20, cfg_max_output_tokens = 1024\<rparr>,
         Error_generating_response (Exception (py_lit ''429 quota exceeded'')),
         Caption_hint])"
    using h2 by (simp add: ask_handler_def h3 stub_quota_def stub_def) (simp add: ask_widgets_def)
  show ?thesis
    using h1 h2 h3 run remote_failure_leaves_state [OF h1 h2 h3 h4, of steady_clock]
    by simp
qed

section \<open>The history view\<close>

lemma expanders_map_Expander:
  "expanders (map (\<lambda>(i, e). Expander (f i e) e) xs) = map (\<lambda>(i, e). (f i e, e)) xs"
  by (induction xs) auto

lemma expanders_render_history:
  "expanders (render_history h) =
     map (\<lambda>(i, e). (expander_label (int (length h) - int i) e, e)) (enumerate 0 (rev h))"
  by (cases "h = []") (simp_all add: render_history_def expanders_map_Expander)

text \<open>
  Claim C7: the expanders are shown newest first, and the one showing the entry at
  chronological position \<open>j + 1\<close> is labelled with that number, whatever its place in
  the display; for three entries inserted as E1, E2, E3 the display is E3, E2, E1 with
  the labels numbered 3, 2, 1.
\<close>

theorem history_newest_first:
  "expanders (render_history h) =
     map (\<lambda>j. (expander_label (int j + 1) (h ! j), h ! j)) (rev [0..<length h])
   \<and> expanders (render_history [e1, e2, e3]) =
       [(''Q&A #3 - '' @ timestamp e3, e3), (''Q&A #2 - '' @ timestamp e2, e2),
        (''Q&A #1 - '' @ timestamp e1, e1)]"
proof
  show "expanders (render_history h) =
     map (\<lambda>j. (expander_label (int j + 1) (h ! j), h ! j)) (rev [0..<length h])"
  proof (rule nth_equalityI)
    show "length (expanders (render_history h)) =
       length (map (\<lambda>j. (expander_label (int j + 1) (h ! j), h ! j)) (rev [0..<length h]))"
      by (simp add: expanders_render_history)
  next
    fix k assume "k < length (expanders (render_history h))"
    then have k: "k < length h" by (simp add: expanders_render_history)
    define j where "j = length h - Suc k"
    have pos: "int (length h) - int k = int j + 1" using k by (simp add: j_def)
    have shown: "expanders (render_history h) ! k =
        (expander_label (int (length h) - int k) (rev h ! k), rev h ! k)"
      using k by (simp add: expanders_render_history nth_enumerate_eq)
    have entry: "rev h ! k = h ! j" using k by (simp add: rev_nth j_def)
    have index: "rev [0..<length h] ! k = j" using k by (simp add: rev_nth j_def)
    have "map (\<lambda>j. (expander_label (int j + 1) (h ! j), h ! j)) (rev [0..<length h]) ! k =
        (expander_label (int j + 1) (h ! j), h ! j)"
      using k by (simp only: nth_map length_rev length_upt diff_zero index)
    with shown entry pos show "expanders (render_history h) ! k =
       map (\<lambda>j. (expander_label (int j + 1) (h ! j), h ! j)) (rev [0..<length h]) ! k"
      by (simp only:)
  qed
next
  have three: "enumerate 0 (rev [e1, e2, e3]) = [(0, e3), (1, e2), (2, e1)]"
    by (simp add: enumerate_eq_zip upt_rec)
  have d1: "str_int 1 = ''1''" and d2: "str_int 2 = ''2''" and d3: "str_int 3 = ''3''"
    by (simp_all add: str_int_def str_nat.simps)
  show "expanders (render_history [e1, e2, e3]) =
       [(''Q&A #3 - '' @ timestamp e3, e3), (''Q&A #2 - '' @ timestamp e2, e2),
        (''Q&A #1 - '' @ timestamp e1, e1)]"
    unfolding expanders_render_history three
    by (simp add: expander_label_def d1 d2 d3)
qed

section \<open>The history invariant\<close>

lemma strip_strip: "strip (strip s) = strip s"
proof (cases "strip s = []")
  case True
  have "strip [] = []" by (simp add: strip_def)
  with True show ?thesis by simp
next
  case False
  let ?t = "dropWhile isspace s"
  let ?r = "dropWhile isspace (rev ?t)"
  from False have r: "?r \<noteq> []" by (simp add: strip_def)
  have t: "?t \<noteq> []"
  proof
    assume a: "?t = []"
    have "dropWhile isspace (rev ?t) = dropWhile isspace (rev [])" by (simp only: a)
    then have "?r = []" by simp
    with r show False by blast
  qed
  have "rev ?t = takeWhile isspace (rev ?t) @ ?r" by simp
  then have "last (rev ?t) = last ?r" using r by (metis last_appendR)
  then have last_r: "last ?r = hd ?t" using t by (simp add: last_rev)
  have "\<not> isspace (hd ?t)" using t by (rule hd_dropWhile)
  then have "\<not> isspace (hd (rev ?r))" using r by (simp add: hd_rev last_r)
  then have front: "dropWhile isspace (rev ?r) = rev ?r"
    by (simp add: dropWhile_eq_self_iff)
  have "\<not> isspace (hd ?r)" using r by (rule hd_dropWhile)
  then have rear: "dropWhile isspace ?r = ?r" by (simp add: dropWhile_eq_self_iff)
  show ?thesis unfolding strip_def by (simp only: front rear rev_rev_ident)
qed

lemma clear_handler_history:
  "conversation_history (fst (snd (clear_handler b s))) = conversation_history s
   \<or> conversation_history (fst (snd (clear_handler b s))) = []"
  by (simp add: clear_handler_def clear_def)

lemma upload_handler_history:
  "conversation_history (fst (snd (upload_handler ext u s))) = conversation_history s"
  by (simp add: upload_handler_def Let_def split: option.splits prod.splits sum.splits)

lemma ask_handler_history:
  "conversation_history (fst (snd (ask_handler ext w ck s))) = conversation_history s
   \<or> (\<exists>e. conversation_history (fst (snd (ask_handler ext w ck s)))
             = conversation_history s @ [e] \<and> entry_ok e)"
  by (simp add: ask_handler_def Let_def appendEntry_def entry_ok_def strip_strip
      split: option.splits sum.splits)

lemma and_then_state:
  "fst (snd (and_then r f)) = fst (snd r) \<or> fst (snd (and_then r f)) = fst (snd (f (fst (snd r))))"
  by (cases r) (simp add: and_then_def split: control.splits prod.splits)

lemma script_run_clear:
  "clear_button w \<Longrightarrow> script_run ext w ck s = (Rerun, clear s, [])"
  by (simp add: script_run_def clear_handler_def and_then_def)

lemma script_run_history:
  "conversation_history (fst (snd (script_run ext w ck s))) = conversation_history s
   \<or> conversation_history (fst (snd (script_run ext w ck s))) = []
   \<or> (\<exists>e. conversation_history (fst (snd (script_run ext w ck s)))
             = conversation_history s @ [e] \<and> entry_ok e)"
proof (cases "clear_button w")
  case True
  then show ?thesis by (simp add: script_run_clear clear_def)
next
  case False
  let ?a = "clear_handler (clear_button w) s"
  let ?b = "and_then ?a (upload_handler ext (uploaded w))"
  let ?c = "and_then ?b (ask_handler ext w ck)"
  let ?show = "\<lambda>s'. (Continue, s', render_history (conversation_history s') @ instructions s')"
  have a: "fst (snd ?a) = s" using False by (simp add: clear_handler_def)
  have b: "conversation_history (fst (snd ?b)) = conversation_history s"
    using and_then_state [of ?a "upload_handler ext (uploaded w)"] a
    by (auto simp: upload_handler_history)
  have c: "conversation_history (fst (snd ?c)) = conversation_history s
           \<or> (\<exists>e. conversation_history (fst (snd ?c)) = conversation_history s @ [e]
                  \<and> entry_ok e)"
    using and_then_state [of ?b "ask_handler ext w ck"]
      ask_handler_history [of ext w ck "fst (snd ?b)"] b
    by auto
  have d: "fst (snd (script_run ext w ck s)) = fst (snd ?c)"
    unfolding script_run_def using and_then_state [of ?c ?show] by auto
  from c show ?thesis unfolding d by blast
qed

lemma script_run_history_ok:
  assumes "history_ok s"
  shows "history_ok (fst (snd (script_run ext w ck s)))"
  using assms script_run_history [of ext w ck s]
  by (auto simp: history_ok_def)

text \<open>
  Claim C10: in every state a session can reach, each entry of the history has a
  question that is not empty after trimming and an answer that is not empty; and one
  run of the script leaves the history as it was, or empties it, or appends one such
  entry to it.
\<close>

theorem history_entries_well_formed:
  assumes "reachable s"
  shows "(\<forall>e \<in> set (conversation_history s). strip (question e) \<noteq> [] \<and> answer e \<noteq> [])
         \<and> (\<forall>ext w ck.
               conversation_history (fst (snd (script_run ext w ck s))) = conversation_history s
               \<or> conversation_history (fst (snd (script_run ext w ck s))) = []
               \<or> (\<exists>e. conversation_history (fst (snd (script_run ext w ck s)))
                         = conversation_history s @ [e]
                       \<and> strip (question e) \<noteq> [] \<and> answer e \<noteq> []))"
proof -
  have "history_ok s"
    using assms
  proof (induction rule: reachable.induct)
    case reachable_init
    show ?case by (simp add: history_ok_def init_session_state_def)
  next
    case (reachable_run s ext w ck c s' evs)
    from script_run_history_ok [OF reachable_run.IH, of ext w ck] reachable_run.hyps(2)
    show ?case by simp
  qed
  then have inv: "\<forall>e \<in> set (conversation_history s). strip (question e) \<noteq> [] \<and> answer e \<noteq> []"
    by (simp add: history_ok_def list_all_iff entry_ok_def)
  from inv script_run_history [of _ _ _ s] show ?thesis
    unfolding entry_ok_def by blast
qed

lemma first_run:
  "script_run stub_ok ask_widgets steady_clock init_session_state =
     (Continue,
      \<lparr>conversation_history =
         [\<lparr>question = py_lit ''What color?'', answer = py_lit ''The image is red.'',
           response_time = 2, timestamp = ''12:00:00''\<rparr>],
       current_image = Some red_image, current_image_base64 = Some (pixels red_image)\<rparr>,
      snd (snd (script_run stub_ok ask_widgets steady_clock init_session_state)))"
  by (simp add: script_run_def and_then_def clear_handler_def upload_handler_def
      process_uploaded_image_def image_to_base64_def ask_handler_def appendEntry_def
      ask_widgets_def small_file_def steady_clock_def init_session_state_def
      stub_ok_def stub_def strip_def py_lit_def isspace_def red_image_def)

theorem history_entries_well_formed_witness:
  "reachable
     \<lparr>conversation_history =
        [\<lparr>question = py_lit ''What color?'', answer = py_lit ''The image is red.'',
          response_time = 2, timestamp = ''12:00:00''\<rparr>],
      current_image = Some red_image, current_image_base64 = Some (pixels red_image)\<rparr>
   \<and> strip (py_lit ''What color?'') \<noteq> [] \<and> py_lit ''The image is red.'' \<noteq> []"
proof -
  have r: "reachable
     \<lparr>conversation_history =
        [\<lparr>question = py_lit ''What color?'', answer = py_lit ''The image is red.'',
          response_time = 2, timestamp = ''12:00:00''\<rparr>],
      current_image = Some red_image, current_image_base64 = Some (pixels red_image)\<rparr>"
    by (rule reachable_run [OF reachable_init first_run])
  show ?thesis
    using r history_entries_well_formed [OF r] by simp
qed

end
